theory Spec2Isabelle
  imports Complex_Main "HOL-Library.Multiset"
begin

section \<open>JavaScript numbers\<close>

text \<open>
  Every number of the program is a JavaScript \<^verbatim>\<open>number\<close>. The model keeps the three
  special values the program can produce and test for (\<^verbatim>\<open>NaN\<close>, \<^verbatim>\<open>Infinity\<close>,
  \<^verbatim>\<open>-Infinity\<close>) and reads a finite value as a real: rounding and overflow of finite
  doubles are abstracted, and a zero divisor is read as \<^verbatim>\<open>+0\<close> (the only zero divisor
  of the program is a difference \<^verbatim>\<open>x - x\<close>, which is \<^verbatim>\<open>+0\<close>).
\<close>

datatype jsnum = Fin real | PosInf | NegInf | NaN

text \<open>The relational operators: every comparison with \<^verbatim>\<open>NaN\<close> is false.\<close>

fun js_lt :: "jsnum \<Rightarrow> jsnum \<Rightarrow> bool" where
  "js_lt NaN b = False"
| "js_lt a NaN = False"
| "js_lt (Fin x) (Fin y) = (x < y)"
| "js_lt a NegInf = False"
| "js_lt NegInf b = True"
| "js_lt PosInf b = False"
| "js_lt a PosInf = True"

text \<open>Strict equality \<^verbatim>\<open>===\<close> on numbers: \<^verbatim>\<open>NaN\<close> equals nothing.\<close>

definition js_eq :: "jsnum \<Rightarrow> jsnum \<Rightarrow> bool" where
  "js_eq a b = (a = b \<and> a \<noteq> NaN)"

definition js_le :: "jsnum \<Rightarrow> jsnum \<Rightarrow> bool" where
  "js_le a b = (js_lt a b \<or> js_eq a b)"

definition js_gt :: "jsnum \<Rightarrow> jsnum \<Rightarrow> bool" where
  "js_gt a b = js_lt b a"

definition js_ge :: "jsnum \<Rightarrow> jsnum \<Rightarrow> bool" where
  "js_ge a b = js_le b a"

fun js_neg :: "jsnum \<Rightarrow> jsnum" where
  "js_neg (Fin x) = Fin (- x)"
| "js_neg PosInf = NegInf"
| "js_neg NegInf = PosInf"
| "js_neg NaN = NaN"

fun js_add :: "jsnum \<Rightarrow> jsnum \<Rightarrow> jsnum" where
  "js_add NaN b = NaN"
| "js_add a NaN = NaN"
| "js_add (Fin x) (Fin y) = Fin (x + y)"
| "js_add PosInf NegInf = NaN"
| "js_add NegInf PosInf = NaN"
| "js_add PosInf b = PosInf"
| "js_add NegInf b = NegInf"
| "js_add a PosInf = PosInf"
| "js_add a NegInf = NegInf"

definition js_sub :: "jsnum \<Rightarrow> jsnum \<Rightarrow> jsnum" where
  "js_sub a b = js_add a (js_neg b)"

text \<open>The sign of a non-\<^verbatim>\<open>NaN\<close> number, for products and quotients of infinities.\<close>

fun js_sign :: "jsnum \<Rightarrow> int" where
  "js_sign (Fin x) = (if x < 0 then - 1 else if x = 0 then 0 else 1)"
| "js_sign PosInf = 1"
| "js_sign NegInf = - 1"
| "js_sign NaN = 0"

definition inf_of_sign :: "int \<Rightarrow> jsnum" where
  "inf_of_sign s = (if s = 0 then NaN else if 0 < s then PosInf else NegInf)"

fun js_mul :: "jsnum \<Rightarrow> jsnum \<Rightarrow> jsnum" where
  "js_mul NaN b = NaN"
| "js_mul a NaN = NaN"
| "js_mul (Fin x) (Fin y) = Fin (x * y)"
| "js_mul a b = inf_of_sign (js_sign a * js_sign b)"

fun js_div :: "jsnum \<Rightarrow> jsnum \<Rightarrow> jsnum" where
  "js_div NaN b = NaN"
| "js_div a NaN = NaN"
| "js_div (Fin x) (Fin y) = (if y \<noteq> 0 then Fin (x / y) else inf_of_sign (js_sign (Fin x)))"
| "js_div (Fin x) b = Fin 0"
| "js_div a (Fin y) = inf_of_sign (js_sign a * (if y < 0 then - 1 else 1))"
| "js_div a b = NaN"

text \<open>\<^verbatim>\<open>ToBoolean\<close> on a number: \<^verbatim>\<open>0\<close> and \<^verbatim>\<open>NaN\<close> are falsy.\<close>

fun truthy :: "jsnum \<Rightarrow> bool" where
  "truthy (Fin x) = (x \<noteq> 0)"
| "truthy NaN = False"
| "truthy a = True"

text \<open>
  \<^verbatim>\<open>Math.min(...xs)\<close> and \<^verbatim>\<open>Math.max(...xs)\<close>: with no argument the result is
  \<^verbatim>\<open>Infinity\<close> and \<^verbatim>\<open>-Infinity\<close>; a \<^verbatim>\<open>NaN\<close> argument makes the result \<^verbatim>\<open>NaN\<close>.
\<close>

definition min2 :: "jsnum \<Rightarrow> jsnum \<Rightarrow> jsnum" where
  "min2 a b = (if a = NaN \<or> b = NaN then NaN else if js_lt b a then b else a)"

definition max2 :: "jsnum \<Rightarrow> jsnum \<Rightarrow> jsnum" where
  "max2 a b = (if a = NaN \<or> b = NaN then NaN else if js_lt a b then b else a)"

definition Math_min :: "jsnum list \<Rightarrow> jsnum" where
  "Math_min xs = foldl min2 PosInf xs"

definition Math_max :: "jsnum list \<Rightarrow> jsnum" where
  "Math_max xs = foldl max2 NegInf xs"

text \<open>\<^verbatim>\<open>x || NaN\<close> on a number \<^verbatim>\<open>x\<close>.\<close>

definition or_NaN :: "jsnum \<Rightarrow> jsnum" where
  "or_NaN x = (if truthy x then x else NaN)"

section \<open>Data model\<close>

text \<open>
  \<^verbatim>\<open>TimelineEvent\<close> of \<^verbatim>\<open>model.ts\<close>, with the fields the two source files read.
  An absent \<^verbatim>\<open>endTimeMillis\<close> or \<^verbatim>\<open>tooltip\<close> (\<^verbatim>\<open>undefined\<close>) is \<open>None\<close>; the
  optional flags \<^verbatim>\<open>isSelected\<close> and \<^verbatim>\<open>isPinned\<close> are only ever tested for
  truthiness, so an absent flag is \<open>False\<close>.
\<close>

record TimelineEvent =
  eventId :: string
  laneId :: string
  startTimeMillis :: jsnum
  endTimeMillis :: "jsnum option"
  tooltip :: "string option"
  isSelected :: bool
  isPinned :: bool

type_synonym Domain = "jsnum \<times> jsnum"

text \<open>Truthiness of the optional fields: \<^verbatim>\<open>undefined\<close>, \<^verbatim>\<open>0\<close>, \<^verbatim>\<open>NaN\<close> and the empty
  string are falsy.\<close>

definition truthy_end :: "TimelineEvent \<Rightarrow> bool" where
  "truthy_end e = (case endTimeMillis e of None \<Rightarrow> False | Some en \<Rightarrow> truthy en)"


text \<open>The value of \<^verbatim>\<open>e.endTimeMillis\<close> where the source has tested it truthy.\<close>

definition end_of :: "TimelineEvent \<Rightarrow> jsnum" where
  "end_of e = (case endTimeMillis e of None \<Rightarrow> NaN | Some en \<Rightarrow> en)"

section \<open>Timeline.tsx\<close>

subsection \<open>calcMaxDomain\<close>

definition calcMaxDomain :: "TimelineEvent list \<Rightarrow> Domain" where
  "calcMaxDomain events =
     (let timeMin = Math_min (map startTimeMillis events);
          timeMax = Math_max (map (\<lambda>e. case endTimeMillis e of
                                          None \<Rightarrow> startTimeMillis e
                                        | Some en \<Rightarrow> en) events)
      in (or_NaN timeMin, or_NaN timeMax))"

subsection \<open>eventsInsideDomain\<close>

text \<open>
  The filter callback returns \<^verbatim>\<open>isStartInView || isEndInView || isSpanningAcrossView\<close>,
  where the last two are \<^verbatim>\<open>e.endTimeMillis && ...\<close>; \<^verbatim>\<open>filter\<close> keeps the event when that
  value is truthy, which is the disjunction of the truthiness of the three.
\<close>

definition isStartInView :: "Domain \<Rightarrow> TimelineEvent \<Rightarrow> bool" where
  "isStartInView d e =
     (js_ge (startTimeMillis e) (fst d) \<and> js_le (startTimeMillis e) (snd d))"

definition isEndInView :: "Domain \<Rightarrow> TimelineEvent \<Rightarrow> bool" where
  "isEndInView d e =
     (truthy_end e \<and> js_ge (end_of e) (fst d) \<and> js_le (end_of e) (snd d))"

definition isSpanningAcrossView :: "Domain \<Rightarrow> TimelineEvent \<Rightarrow> bool" where
  "isSpanningAcrossView d e =
     (truthy_end e \<and> js_lt (startTimeMillis e) (fst d) \<and> js_gt (end_of e) (snd d))"

definition insideDomain :: "Domain \<Rightarrow> TimelineEvent \<Rightarrow> bool" where
  "insideDomain d e = (isStartInView d e \<or> isEndInView d e \<or> isSpanningAcrossView d e)"

definition eventsInsideDomain :: "Domain \<Rightarrow> TimelineEvent list \<Rightarrow> TimelineEvent list" where
  "eventsInsideDomain d events = filter (insideDomain d) events"

subsection \<open>View state, animation and the scheduled frames\<close>

text \<open>
  The component's state is \<^verbatim>\<open>domain\<close>, \<^verbatim>\<open>animation\<close> and \<^verbatim>\<open>isMouseOverEvent\<close>
  (three \<^verbatim>\<open>useState\<close> cells). A callback handed to \<^verbatim>\<open>requestAnimationFrame\<close> runs
  later, so the model keeps the callbacks that are scheduled and not yet run in
  \<open>pending\<close>: a callback is the closure of the source, that is the \<^verbatim>\<open>animatedDomain\<close> it
  computed and the \<^verbatim>\<open>animation\<close> it was computed for.
\<close>

datatype Animation = none | Anim (startMs: jsnum) (fromDomain: Domain) (toDomain: Domain)

record Frame =
  animatedDomain :: Domain
  frameAnimation :: Animation

record ViewState =
  domain :: Domain
  animation :: Animation
  isMouseOverEvent :: bool
  pending :: "Frame list"

definition animationDuration :: jsnum where
  "animationDuration = Fin 1000"

text \<open>The effect on \<^verbatim>\<open>[maxDomainStart, maxDomainEnd]\<close>: the extent of the events changed.\<close>

definition extentEffect :: "Domain \<Rightarrow> ViewState \<Rightarrow> ViewState" where
  "extentEffect maxD s = s\<lparr>animation := none, domain := (fst maxD, snd maxD)\<rparr>"

text \<open>The interpolated domain of a tick, as the effect computes it.\<close>

definition interpolate :: "jsnum \<Rightarrow> Domain \<Rightarrow> Domain \<Rightarrow> Domain" where
  "interpolate elapsed fromD toD =
     (let t = js_div elapsed animationDuration;
          deltaStart = js_mul t (js_sub (fst toD) (fst fromD));
          deltaEnd = js_mul t (js_sub (snd toD) (snd fromD))
      in (js_add (fst fromD) deltaStart, js_add (snd fromD) deltaEnd))"

text \<open>The effect on \<^verbatim>\<open>[animation, now]\<close>; \<open>now\<close> is \<^verbatim>\<open>Date.now()\<close> of the render.\<close>

definition animationEffect :: "jsnum \<Rightarrow> ViewState \<Rightarrow> ViewState" where
  "animationEffect now s =
     (case animation s of
        none \<Rightarrow> s
      | Anim st fromD toD \<Rightarrow>
          (let elapsed = js_sub now st in
           if js_lt elapsed animationDuration
           then s\<lparr>pending := pending s @
                    [\<lparr>animatedDomain = interpolate elapsed fromD toD,
                      frameAnimation = animation s\<rparr>]\<rparr>
           else s\<lparr>domain := toD, animation := none\<rparr>))"

text \<open>The body of the callback given to \<^verbatim>\<open>requestAnimationFrame\<close>.\<close>

definition frameCallback :: "Frame \<Rightarrow> ViewState \<Rightarrow> ViewState" where
  "frameCallback f s =
     (let s1 = s\<lparr>domain := animatedDomain f\<rparr> in
      case frameAnimation f of
        none \<Rightarrow> s1
      | Anim st fromD toD \<Rightarrow>
          if js_eq (fst (animatedDomain f)) (fst toD) \<and> js_eq (snd (animatedDomain f)) (snd toD)
          then s1\<lparr>animation := none\<rparr>
          else s1)"

text \<open>The host runs the oldest scheduled callback.\<close>

definition runFrame :: "ViewState \<Rightarrow> ViewState" where
  "runFrame s =
     (case pending s of
        [] \<Rightarrow> s
      | f # fs \<Rightarrow> frameCallback f (s\<lparr>pending := fs\<rparr>))"

subsection \<open>Zoom, reset and pan\<close>

text \<open>
  What a handler reads besides the state: the canvas width, the maximal domain, the pointer's
  x, \<^verbatim>\<open>Date.now()\<close>, the inverse of the d3 time scale built from the current domain, and the
  three functions of \<^verbatim>\<open>ZoomScale\<close>, which are taken as parameters.
\<close>

record 'z Env =
  width :: jsnum
  maxDomain :: Domain
  mousePositionX :: jsnum
  dateNow :: jsnum
  timeScale_invert :: "jsnum \<Rightarrow> jsnum"
  zoomScaleWidth :: "'z \<Rightarrow> jsnum"
  nextSmallerZoomScale :: "Domain \<Rightarrow> 'z"
  nextBiggerZoomScale :: "Domain \<Rightarrow> 'z"

definition timeScalePadding :: jsnum where
  "timeScalePadding = Fin 50"

definition timeScale_range :: "'z Env \<Rightarrow> Domain" where
  "timeScale_range env = (timeScalePadding, js_sub (width env) timeScalePadding)"

definition isAnimationInProgress :: "ViewState \<Rightarrow> bool" where
  "isAnimationInProgress s = (animation s \<noteq> none)"

definition isDomainChangePossible :: "ViewState \<Rightarrow> bool" where
  "isDomainChangePossible s = (\<not> isAnimationInProgress s \<and> \<not> isMouseOverEvent s)"

definition getDomainSpan :: "'z Env \<Rightarrow> jsnum \<Rightarrow> jsnum \<Rightarrow> Domain" where
  "getDomainSpan env time w =
     (max2 (fst (maxDomain env)) (js_sub time (js_div w (Fin 2))),
      min2 (snd (maxDomain env)) (js_add time (js_div w (Fin 2))))"

definition setDomainAnimated :: "'z Env \<Rightarrow> Domain \<Rightarrow> ViewState \<Rightarrow> ViewState" where
  "setDomainAnimated env newDomain s =
     s\<lparr>animation := Anim (dateNow env) (domain s) newDomain\<rparr>"

definition updateDomain :: "'z Env \<Rightarrow> 'z \<Rightarrow> ViewState \<Rightarrow> ViewState" where
  "updateDomain env zoomScale s =
     (if isDomainChangePossible s
      then (let newZoomWidth = zoomScaleWidth env zoomScale;
                timeAtCursor = timeScale_invert env (mousePositionX env)
            in setDomainAnimated env (getDomainSpan env timeAtCursor newZoomWidth) s)
      else s)"

definition onZoomIn :: "'z Env \<Rightarrow> ViewState \<Rightarrow> ViewState" where
  "onZoomIn env s = updateDomain env (nextSmallerZoomScale env (domain s)) s"

definition onZoomOut :: "'z Env \<Rightarrow> ViewState \<Rightarrow> ViewState" where
  "onZoomOut env s = updateDomain env (nextBiggerZoomScale env (domain s)) s"

definition onZoomInCustom :: "'z Env \<Rightarrow> jsnum \<Rightarrow> jsnum \<Rightarrow> ViewState \<Rightarrow> ViewState" where
  "onZoomInCustom env mouseStartX mouseEndX s =
     (if isDomainChangePossible s
      then (let newMin = timeScale_invert env mouseStartX;
                newMax = timeScale_invert env mouseEndX
            in setDomainAnimated env (newMin, newMax) s)
      else s)"

definition onZoomReset :: "'z Env \<Rightarrow> ViewState \<Rightarrow> ViewState" where
  "onZoomReset env s =
     (if isDomainChangePossible s
      then setDomainAnimated env (fst (maxDomain env), snd (maxDomain env)) s
      else s)"

text \<open>The translated domain of a pan, and the bounds test the pan applies to it.\<close>

definition panTarget :: "'z Env \<Rightarrow> jsnum \<Rightarrow> ViewState \<Rightarrow> Domain" where
  "panTarget env pixelDelta s =
     (let domainMin = fst (domain s); domainMax = snd (domain s);
          rangeMin = fst (timeScale_range env); rangeMax = snd (timeScale_range env);
          domainDelta = js_mul (js_div pixelDelta (js_sub rangeMax rangeMin))
                               (js_sub domainMax domainMin)
      in (js_add domainMin domainDelta, js_add domainMax domainDelta))"

definition panInBounds :: "'z Env \<Rightarrow> Domain \<Rightarrow> bool" where
  "panInBounds env newDomain =
     (js_gt (fst newDomain) (fst (maxDomain env)) \<and> js_lt (snd newDomain) (snd (maxDomain env)))"

definition onPan :: "'z Env \<Rightarrow> jsnum \<Rightarrow> ViewState \<Rightarrow> ViewState" where
  "onPan env pixelDelta s =
     (if isDomainChangePossible s
      then (if panInBounds env (panTarget env pixelDelta s)
            then s\<lparr>domain := panTarget env pixelDelta s\<rparr>
            else s)
      else s)"

definition onEventHoverDecorated :: "ViewState \<Rightarrow> ViewState" where
  "onEventHoverDecorated s = s\<lparr>isMouseOverEvent := True\<rparr>"

definition onEventUnhoverDecorated :: "ViewState \<Rightarrow> ViewState" where
  "onEventUnhoverDecorated s = s\<lparr>isMouseOverEvent := False\<rparr>"

section \<open>Marks.tsx\<close>

subsection \<open>The host's Array.prototype.sort\<close>

text \<open>
  \<^verbatim>\<open>Array.prototype.sort(comparefn)\<close> belongs to the JavaScript engine. ECMAScript fixes
  how the comparator is read (\<^verbatim>\<open>comparefn(x, y) < 0\<close> places \<^verbatim>\<open>x\<close> before \<^verbatim>\<open>y\<close>) and that
  the sort is stable; for a comparator that is not a consistent ordering it leaves the
  resulting order to the engine. The model is the stable insertion sort that takes the
  elements from left to right and moves each one to the left past every element \<^verbatim>\<open>y\<close> of
  the sorted prefix for which \<^verbatim>\<open>comparefn(x, y) < 0\<close>. The prefix is kept reversed
  (its last element first) while the loop runs.
\<close>

fun insert_left :: "('a \<Rightarrow> 'a \<Rightarrow> jsnum) \<Rightarrow> 'a \<Rightarrow> 'a list \<Rightarrow> 'a list" where
  "insert_left comparefn x [] = [x]"
| "insert_left comparefn x (y # rs) =
     (if js_lt (comparefn x y) (Fin 0) then y # insert_left comparefn x rs else x # y # rs)"

fun sort_loop :: "('a \<Rightarrow> 'a \<Rightarrow> jsnum) \<Rightarrow> 'a list \<Rightarrow> 'a list \<Rightarrow> 'a list" where
  "sort_loop comparefn rs [] = rev rs"
| "sort_loop comparefn rs (x # xs) = sort_loop comparefn (insert_left comparefn x rs) xs"

definition array_sort :: "('a \<Rightarrow> 'a \<Rightarrow> jsnum) \<Rightarrow> 'a list \<Rightarrow> 'a list" where
  "array_sort comparefn xs = sort_loop comparefn [] xs"

subsection \<open>The three passes of Marks\<close>

text \<open>
  \<^verbatim>\<open>sortByEventDuration\<close> takes one event. Passed to \<^verbatim>\<open>sort\<close> it is called as
  \<^verbatim>\<open>comparefn(a, b)\<close> and ignores \<^verbatim>\<open>b\<close>.
\<close>

definition sortByEventDuration :: "TimelineEvent \<Rightarrow> jsnum" where
  "sortByEventDuration e =
     js_neg (if truthy_end e then js_sub (end_of e) (startTimeMillis e) else Fin 0)"

datatype EventComponentRole = background | foreground

datatype className = eventBackground | selectedEvent | eventRect | eventCircle

text \<open>The default event component, by the style class it gives its mark.\<close>

definition defaultEventComponent :: "TimelineEvent \<Rightarrow> EventComponentRole \<Rightarrow> className" where
  "defaultEventComponent e role =
     (if role = background then eventBackground
      else if isSelected e then selectedEvent
      else if truthy_end e then eventRect
      else eventCircle)"

text \<open>
  An \<^verbatim>\<open>InteractiveEventMark\<close> element: its key, its event and the child the event
  component factory made. The factory \<open>ecf\<close> is \<^verbatim>\<open>eventComponent || defaultEventComponent\<close>.
  Each pass is the value its \<^verbatim>\<open>useMemo\<close> computes.
\<close>

record 'v InteractiveEventMark =
  mark_key :: string
  mark_event :: TimelineEvent
  mark_children :: 'v

definition interactiveEventMark ::
  "(TimelineEvent \<Rightarrow> EventComponentRole \<Rightarrow> 'v) \<Rightarrow> EventComponentRole \<Rightarrow> TimelineEvent
     \<Rightarrow> 'v InteractiveEventMark" where
  "interactiveEventMark ecf role e =
     \<lparr>mark_key = eventId e, mark_event = e, mark_children = ecf e role\<rparr>"

definition backgroundMarks ::
  "(TimelineEvent \<Rightarrow> EventComponentRole \<Rightarrow> 'v) \<Rightarrow> TimelineEvent list
     \<Rightarrow> 'v InteractiveEventMark list" where
  "backgroundMarks ecf events = map (interactiveEventMark ecf background) events"

definition foregroundMarks ::
  "(TimelineEvent \<Rightarrow> EventComponentRole \<Rightarrow> 'v) \<Rightarrow> TimelineEvent list
     \<Rightarrow> 'v InteractiveEventMark list" where
  "foregroundMarks ecf events =
     map (interactiveEventMark ecf foreground)
       (array_sort (\<lambda>a b. sortByEventDuration a) (filter (\<lambda>_. True) events))"

definition selectionMarks ::
  "(TimelineEvent \<Rightarrow> EventComponentRole \<Rightarrow> 'v) \<Rightarrow> TimelineEvent list
     \<Rightarrow> 'v InteractiveEventMark list" where
  "selectionMarks ecf events =
     map (interactiveEventMark ecf foreground)
       (array_sort (\<lambda>a b. sortByEventDuration a) (filter isSelected events))"

definition Marks ::
  "(TimelineEvent \<Rightarrow> EventComponentRole \<Rightarrow> 'v) \<Rightarrow> TimelineEvent list
     \<Rightarrow> 'v InteractiveEventMark list" where
  "Marks ecf events =
     backgroundMarks ecf events @ foregroundMarks ecf events @ selectionMarks ecf events"

text \<open>
  The effective duration of an event in the words of the specification
  (\<^verbatim>\<open>endTimeMillis - startTimeMillis\<close>, or 0 for an instant event), and a list of events in
  descending order of it.
\<close>

definition effectiveDuration :: "TimelineEvent \<Rightarrow> jsnum" where
  "effectiveDuration e =
     (case endTimeMillis e of None \<Rightarrow> Fin 0 | Some en \<Rightarrow> js_sub en (startTimeMillis e))"

definition descendingDuration :: "TimelineEvent list \<Rightarrow> bool" where
  "descendingDuration es =
     sorted_wrt (\<lambda>a b. js_ge (effectiveDuration a) (effectiveDuration b)) es"

subsection \<open>Tooltips\<close>




definition tooltipHeight :: jsnum where
  "tooltipHeight = Fin 30"


definition tooltipY :: "jsnum \<Rightarrow> jsnum \<Rightarrow> jsnum" where
  "tooltipY y yOffset = js_sub (js_sub (js_sub y yOffset) tooltipHeight) (Fin 12)"


section \<open>Example events and the specification's words\<close>

text \<open>An event with the given id, start, optional end and selection flag.\<close>

definition mkEvent :: "string \<Rightarrow> jsnum \<Rightarrow> jsnum option \<Rightarrow> bool \<Rightarrow> TimelineEvent" where
  "mkEvent i s en sel =
     \<lparr>eventId = i, laneId = ''lane'', startTimeMillis = s, endTimeMillis = en,
      tooltip = None, isSelected = sel, isPinned = False\<rparr>"

text \<open>A time lies in the closed domain.\<close>

definition inView :: "Domain \<Rightarrow> jsnum \<Rightarrow> bool" where
  "inView d x = (js_ge x (fst d) \<and> js_le x (snd d))"

text \<open>
  Visibility in the words of the specification: an instant event whose start is in the
  domain, a period event whose end is in the domain, or a period event that spans the
  domain.
\<close>

definition specVisible :: "Domain \<Rightarrow> TimelineEvent \<Rightarrow> bool" where
  "specVisible d e =
     ((endTimeMillis e = None \<and> inView d (startTimeMillis e))
      \<or> (endTimeMillis e \<noteq> None \<and> inView d (end_of e))
      \<or> (endTimeMillis e \<noteq> None \<and> js_lt (startTimeMillis e) (fst d)
          \<and> js_gt (end_of e) (snd d)))"

text \<open>A number lies strictly between the endpoints of the maximal domain.\<close>

definition strictlyInside :: "Domain \<Rightarrow> jsnum \<Rightarrow> bool" where
  "strictlyInside maxD x = (js_gt x (fst maxD) \<and> js_lt x (snd maxD))"

text \<open>
  An example environment: a canvas 200 wide (a pixel range of 100), the maximal domain
  \<open>[0, 100]\<close>, and the scale of the domain \<open>[10, 20]\<close>.
\<close>

definition exampleEnv :: "nat Env" where
  "exampleEnv =
     \<lparr>width = Fin 200, maxDomain = (Fin 0, Fin 100), mousePositionX = Fin 100,
      dateNow = Fin 5000,
      timeScale_invert = (\<lambda>x. js_add (Fin 10) (js_div (js_sub x (Fin 50)) (Fin 10))),
      zoomScaleWidth = (\<lambda>z. Fin (real z)),
      nextSmallerZoomScale = (\<lambda>d. 1), nextBiggerZoomScale = (\<lambda>d. 4)\<rparr>"

definition idleState :: ViewState where
  "idleState =
     \<lparr>domain = (Fin 10, Fin 20), animation = none, isMouseOverEvent = False, pending = []\<rparr>"

definition hoverState :: ViewState where
  "hoverState = onEventHoverDecorated idleState"

text \<open>An animation from \<open>[10, 20]\<close> to \<open>[30, 40]\<close> that started at time 0.\<close>

definition animatingState :: ViewState where
  "animatingState =
     idleState\<lparr>animation := Anim (Fin 0) (Fin 10, Fin 20) (Fin 30, Fin 40)\<rparr>"

text \<open>
  The animation effect runs at time 500 and schedules a frame; before the frame runs, the
  extent of the events changes and the extent effect cancels the animation.
\<close>

definition cancelledState :: ViewState where
  "cancelledState = extentEffect (Fin 0, Fin 100) (animationEffect (Fin 500) animatingState)"

text \<open>
  Three period events of durations 5, 10 and 7, in this array order, and an instant event
  before a period event.
\<close>

definition threePeriods :: "TimelineEvent list" where
  "threePeriods =
     [mkEvent ''a'' (Fin 100) (Some (Fin 105)) False,
      mkEvent ''b'' (Fin 100) (Some (Fin 110)) True,
      mkEvent ''c'' (Fin 100) (Some (Fin 107)) False]"




text \<open>
  The example environment with the maximal domain \<open>[1, 100]\<close>, and the state after a custom
  zoom dragged from pixel 150 back to pixel 50 has finished its animation: the zoom inverts
  the two pixels in the order given, so the domain is \<open>[20, 10]\<close>, its start above its end.
\<close>

definition panEnv :: "nat Env" where
  "panEnv = exampleEnv\<lparr>maxDomain := (Fin 1, Fin 100)\<rparr>"

definition reversedState :: ViewState where
  "reversedState =
     animationEffect (Fin 7000) (onZoomInCustom panEnv (Fin 150) (Fin 50) idleState)"

section \<open>Properties\<close>

subsection \<open>Numbers and example events\<close>

lemma mkEvent_simps [simp]:
  "eventId (mkEvent i s en sel) = i"
  "startTimeMillis (mkEvent i s en sel) = s"
  "endTimeMillis (mkEvent i s en sel) = en"
  "isSelected (mkEvent i s en sel) = sel"
  "tooltip (mkEvent i s en sel) = None"
  by (simp_all add: mkEvent_def)

lemma js_lt_NaN_right [simp]: "js_lt a NaN = False"
  by (cases a) simp_all

lemma js_cmp_NaN [simp]:
  "js_le a NaN = False" "js_le NaN a = False"
  "js_ge a NaN = False" "js_ge NaN a = False"
  "js_gt a NaN = False" "js_gt NaN a = False"
  by (simp_all add: js_le_def js_ge_def js_gt_def js_eq_def)

subsection \<open>calcMaxDomain\<close>

lemma foldl_min2_Fin: "foldl min2 (Fin a) (map Fin xs) = Fin (fold min xs a)"
proof (induction xs arbitrary: a)
  case Nil
  then show ?case by simp
next
  case (Cons x xs)
  have "min2 (Fin a) (Fin x) = Fin (min x a)"
    by (simp add: min2_def min_def)
  with Cons show ?case by simp
qed

lemma foldl_max2_Fin: "foldl max2 (Fin a) (map Fin xs) = Fin (fold max xs a)"
proof (induction xs arbitrary: a)
  case Nil
  then show ?case by simp
next
  case (Cons x xs)
  have "max2 (Fin a) (Fin x) = Fin (max x a)"
    by (simp add: max2_def max_def)
  with Cons show ?case by simp
qed

lemma Math_min_Fin:
  "Math_min (map Fin xs) = Fin (Min (set xs))" if "xs \<noteq> []"
proof (cases xs)
  case Nil
  then show ?thesis using that by simp
next
  case (Cons y ys)
  have "Min (set (y # ys)) = fold min ys y"
    by (rule Min.set_eq_fold)
  then show ?thesis
    by (simp add: Cons Math_min_def min2_def foldl_min2_Fin)
qed

lemma Math_max_Fin:
  "Math_max (map Fin xs) = Fin (Max (set xs))" if "xs \<noteq> []"
proof (cases xs)
  case Nil
  then show ?thesis using that by simp
next
  case (Cons y ys)
  have "Max (set (y # ys)) = fold max ys y"
    by (rule Max.set_eq_fold)
  then show ?thesis
    by (simp add: Cons Math_max_def max2_def foldl_max2_Fin)
qed

text \<open>
  Away from the two degenerate cases the function is the minimum of the starts and the
  maximum of the ends (of the start, for an event without end): for a non-empty list of
  events with finite times whose minimum and maximum are not 0.
\<close>

lemma calcMaxDomain_finite:
  assumes "es \<noteq> []"
    and "map startTimeMillis es = map Fin starts"
    and "map (\<lambda>e. case endTimeMillis e of None \<Rightarrow> startTimeMillis e | Some en \<Rightarrow> en) es
         = map Fin ends"
    and "Min (set starts) \<noteq> 0" and "Max (set ends) \<noteq> 0"
  shows "calcMaxDomain es = (Fin (Min (set starts)), Fin (Max (set ends)))"
proof -
  have "starts \<noteq> []" "ends \<noteq> []"
    using assms(1,2,3) by auto
  then show ?thesis
    using assms(4,5)
    by (simp add: calcMaxDomain_def assms(2,3) Math_min_Fin Math_max_Fin or_NaN_def)
qed

lemma calcMaxDomain_example:
  "calcMaxDomain [mkEvent ''a'' (Fin 1000) None False,
                  mkEvent ''b'' (Fin 500) (Some (Fin 1500)) False] = (Fin 500, Fin 1500)"
  by (simp add: calcMaxDomain_def Math_min_def Math_max_def or_NaN_def min2_def max2_def)

text \<open>
  C4. The specification gives \<open>(NaN, NaN)\<close> for the empty event list and \<open>(t, t)\<close> for a
  single instant event at any \<open>t\<close>. The code returns \<open>(Infinity, -Infinity)\<close> for the empty
  list, because \<^verbatim>\<open>Math.min()\<close> and \<^verbatim>\<open>Math.max()\<close> of no argument are truthy and
  \<^verbatim>\<open>|| NaN\<close> keeps them; and it returns \<open>(NaN, NaN)\<close> for a single instant event at time 0,
  because 0 is falsy.
\<close>

theorem calcMaxDomain_degenerate:
  "calcMaxDomain [] = (PosInf, NegInf)
   \<and> calcMaxDomain [mkEvent ''a'' (Fin 0) None False] = (NaN, NaN)"
  by (simp add: calcMaxDomain_def Math_min_def Math_max_def or_NaN_def min2_def max2_def)

subsection \<open>Visibility\<close>

text \<open>
  A period event that starts inside the domain and ends after it is kept by the filter,
  though none of the three conditions of the specification holds for it: in the code the
  start-in-view test is made for every event, not only for instant events.
\<close>

theorem insideDomain_start_counterexample:
  "eventsInsideDomain (Fin 0, Fin 10) [mkEvent ''a'' (Fin 5) (Some (Fin 20)) False]
     = [mkEvent ''a'' (Fin 5) (Some (Fin 20)) False]
   \<and> \<not> specVisible (Fin 0, Fin 10) (mkEvent ''a'' (Fin 5) (Some (Fin 20)) False)"
  by (simp add: eventsInsideDomain_def insideDomain_def isStartInView_def specVisible_def
      inView_def end_of_def js_le_def js_ge_def js_gt_def js_eq_def)

text \<open>
  An end time of 0 is read as absent by \<^verbatim>\<open>e.endTimeMillis && ...\<close>: a period event that
  ends at 0, inside the domain, and starts before the domain is dropped.
\<close>

lemma eventsInsideDomain_zero_end:
  "eventsInsideDomain (Fin (- 5), Fin 5) [mkEvent ''z'' (Fin (- 10)) (Some (Fin 0)) False] = []"
  by (simp add: eventsInsideDomain_def insideDomain_def isStartInView_def isEndInView_def
      isSpanningAcrossView_def truthy_end_def js_le_def js_ge_def js_eq_def)

lemma truthy_end_iff:
  "endTimeMillis e \<noteq> Some (Fin 0) \<Longrightarrow>
   truthy_end e \<longleftrightarrow> (endTimeMillis e \<noteq> None \<and> end_of e \<noteq> NaN)"
  apply (cases "endTimeMillis e")
   apply (simp add: truthy_end_def end_of_def)
  subgoal for en by (cases en) (simp_all add: truthy_end_def end_of_def)
  done

text \<open>
  C2, amended. For an event whose end time is not 0, the event is in the visible set if and
  only if it is in the event list and its start is in the domain (whether it is an instant
  or a period event), or it is a period event whose end is in the domain, or it is a period
  event with start before the domain and end after it.
\<close>

theorem eventsInsideDomain_iff:
  assumes "endTimeMillis e \<noteq> Some (Fin 0)"
  shows "e \<in> set (eventsInsideDomain d es) \<longleftrightarrow>
         e \<in> set es \<and>
         (inView d (startTimeMillis e)
          \<or> (endTimeMillis e \<noteq> None \<and> inView d (end_of e))
          \<or> (endTimeMillis e \<noteq> None \<and> js_lt (startTimeMillis e) (fst d)
              \<and> js_gt (end_of e) (snd d)))"
proof -
  have "insideDomain d e \<longleftrightarrow>
         (inView d (startTimeMillis e)
          \<or> (endTimeMillis e \<noteq> None \<and> inView d (end_of e))
          \<or> (endTimeMillis e \<noteq> None \<and> js_lt (startTimeMillis e) (fst d)
              \<and> js_gt (end_of e) (snd d)))"
    unfolding insideDomain_def isStartInView_def isEndInView_def isSpanningAcrossView_def
      inView_def truthy_end_iff [OF assms]
    by (cases "end_of e = NaN") auto
  then show ?thesis by (simp add: eventsInsideDomain_def)
qed

theorem eventsInsideDomain_iff_witness:
  "endTimeMillis (mkEvent ''a'' (Fin 5) (Some (Fin 20)) False) \<noteq> Some (Fin 0)
   \<and> mkEvent ''a'' (Fin 5) (Some (Fin 20)) False
       \<in> set (eventsInsideDomain (Fin 0, Fin 10) [mkEvent ''a'' (Fin 5) (Some (Fin 20)) False])"
  using eventsInsideDomain_iff [of "mkEvent ''a'' (Fin 5) (Some (Fin 20)) False"
      "(Fin 0, Fin 10)" "[mkEvent ''a'' (Fin 5) (Some (Fin 20)) False]"]
  by (simp add: inView_def js_le_def js_ge_def js_eq_def)

lemma insideDomain_NaN: "fst d = NaN \<or> snd d = NaN \<Longrightarrow> \<not> insideDomain d e"
  by (auto simp: insideDomain_def isStartInView_def isEndInView_def isSpanningAcrossView_def)

text \<open>
  C10. If either endpoint of the domain is \<open>NaN\<close>, the visibility filter returns the empty
  list for every event list, and \<open>Marks\<close> produces no visual from it.
\<close>

theorem eventsInsideDomain_NaN:
  assumes "fst d = NaN \<or> snd d = NaN"
  shows "eventsInsideDomain d es = [] \<and> Marks ecf (eventsInsideDomain d es) = []"
proof -
  have "eventsInsideDomain d es = []"
    using assms by (simp add: eventsInsideDomain_def insideDomain_NaN)
  then show ?thesis
    by (simp add: Marks_def backgroundMarks_def foregroundMarks_def selectionMarks_def
        array_sort_def)
qed

theorem eventsInsideDomain_NaN_witness:
  "(fst (NaN, Fin 10) = NaN \<or> snd (NaN, Fin 10) = NaN)
   \<and> eventsInsideDomain (NaN, Fin 10) [mkEvent ''a'' (Fin 5) None False] = []
   \<and> Marks defaultEventComponent
         (eventsInsideDomain (NaN, Fin 10) [mkEvent ''a'' (Fin 5) None False]) = []"
proof -
  have h: "fst (NaN, Fin 10) = NaN \<or> snd (NaN, Fin 10) = NaN"
    by simp
  show ?thesis
    using h eventsInsideDomain_NaN [OF h, of "[mkEvent ''a'' (Fin 5) None False]"
        defaultEventComponent]
    by blast
qed

subsection \<open>Pan\<close>

lemma exampleEnv_simps [simp]:
  "width exampleEnv = Fin 200"
  "maxDomain exampleEnv = (Fin 0, Fin 100)"
  "dateNow exampleEnv = Fin 5000"
  by (simp_all add: exampleEnv_def)

lemma idleState_simps [simp]:
  "domain idleState = (Fin 10, Fin 20)"
  "animation idleState = none"
  "isMouseOverEvent idleState = False"
  "pending idleState = []"
  by (simp_all add: idleState_def)

lemma hoverState_simps [simp]:
  "domain hoverState = (Fin 10, Fin 20)"
  "animation hoverState = none"
  "isMouseOverEvent hoverState = True"
  by (simp_all add: hoverState_def onEventHoverDecorated_def)

lemma panTarget_finite:
  assumes "domain s = (Fin d0, Fin d1)" and "width env = Fin w" and "w \<noteq> 100"
  shows "panTarget env (Fin px) s
         = (Fin (d0 + px / (w - 100) * (d1 - d0)), Fin (d1 + px / (w - 100) * (d1 - d0)))"
  using assms
  by (simp add: panTarget_def timeScale_range_def timeScalePadding_def js_sub_def)

lemma js_add_ordered:
  assumes "js_le a b" and "js_gt (js_add a dl) lo" and "js_lt (js_add b dl) hi"
  shows "js_lt (js_add a dl) hi \<and> js_gt (js_add b dl) lo"
proof -
  from assms(2) have a: "js_add a dl \<noteq> NaN" "js_add a dl \<noteq> NegInf"
    by (cases lo; auto simp: js_gt_def)+
  from assms(3) have b: "js_add b dl \<noteq> NaN" "js_add b dl \<noteq> PosInf"
    by (cases hi; auto)+
  obtain x y z where fin: "a = Fin x" "b = Fin y" "dl = Fin z"
    using assms(1) a b
    by (cases a; cases b; cases dl; simp add: js_le_def js_eq_def)
  then have "x \<le> y"
    using assms(1) by (auto simp: js_le_def js_eq_def)
  then show ?thesis
    using assms(2,3) fin
    by (cases lo; cases hi; simp add: js_gt_def)
qed

text \<open>
  From a domain whose start is above its end, a pan is applied though an endpoint of the
  new domain is outside the maximal domain: \<open>onPan\<close> tests the new start against the start
  of the maximal domain and the new end against its end, and nothing else. From \<open>[20, 10]\<close>
  the pan by \<open>-850\<close> pixels gives \<open>[105, 95]\<close> in the maximal domain \<open>[1, 100]\<close>.
\<close>

theorem onPan_reversed_counterexample:
  "domain reversedState = (Fin 20, Fin 10)
   \<and> animation reversedState = none
   \<and> domain (onPan panEnv (Fin (- 850)) reversedState) = (Fin 105, Fin 95)
   \<and> maxDomain panEnv = (Fin 1, Fin 100)
   \<and> \<not> strictlyInside (maxDomain panEnv) (Fin 105)"
proof -
  have r: "reversedState
           = \<lparr>domain = (Fin 20, Fin 10), animation = none, isMouseOverEvent = False,
              pending = []\<rparr>"
    by (simp add: reversedState_def panEnv_def exampleEnv_def idleState_def onZoomInCustom_def
        isDomainChangePossible_def isAnimationInProgress_def setDomainAnimated_def
        animationEffect_def animationDuration_def js_sub_def)
  have e: "width panEnv = Fin 200" "maxDomain panEnv = (Fin 1, Fin 100)"
    by (simp_all add: panEnv_def)
  have t: "panTarget panEnv (Fin (- 850)) reversedState = (Fin 105, Fin 95)"
    by (simp add: panTarget_finite [where ?d0.0 = 20 and ?d1.0 = 10 and w = 200] r e)
  show ?thesis
    by (simp add: onPan_def t e panInBounds_def isDomainChangePossible_def
        isAnimationInProgress_def js_gt_def strictlyInside_def)
      (simp add: r)
qed

text \<open>
  C6, amended. After \<open>onPan\<close> either the domain is unchanged, or it is the domain
  translated by \<open>pixelDelta / pixelRangeWidth * domainWidth\<close>, whose start is strictly
  above the start of the maximal domain and whose end is strictly below its end (the two
  tests the code makes); if the domain before the pan is ordered (start at most end), both
  endpoints of the new domain then lie strictly inside the maximal domain. The animation
  state and the scheduled frames are never touched, so a pan starts no animation.
\<close>

theorem onPan_contained_or_unchanged:
  "(domain (onPan env pixelDelta s) = domain s
    \<or> (domain (onPan env pixelDelta s) = panTarget env pixelDelta s
       \<and> js_gt (fst (panTarget env pixelDelta s)) (fst (maxDomain env))
       \<and> js_lt (snd (panTarget env pixelDelta s)) (snd (maxDomain env))
       \<and> (js_le (fst (domain s)) (snd (domain s)) \<longrightarrow>
            strictlyInside (maxDomain env) (fst (panTarget env pixelDelta s))
            \<and> strictlyInside (maxDomain env) (snd (panTarget env pixelDelta s)))))
   \<and> animation (onPan env pixelDelta s) = animation s
   \<and> pending (onPan env pixelDelta s) = pending s"
proof -
  have "strictlyInside (maxDomain env) (fst (panTarget env pixelDelta s))
        \<and> strictlyInside (maxDomain env) (snd (panTarget env pixelDelta s))"
    if "panInBounds env (panTarget env pixelDelta s)"
      and "js_le (fst (domain s)) (snd (domain s))"
    using that js_add_ordered [of "fst (domain s)" "snd (domain s)" _ "fst (maxDomain env)"
        "snd (maxDomain env)"]
    by (simp add: panInBounds_def panTarget_def strictlyInside_def Let_def js_gt_def)
  then show ?thesis
    by (auto simp: onPan_def panInBounds_def)
qed

theorem onPan_contained_or_unchanged_witness:
  "js_le (fst (domain idleState)) (snd (domain idleState))
   \<and> domain (onPan exampleEnv (Fin 10) idleState) = (Fin 11, Fin 21)
   \<and> strictlyInside (maxDomain exampleEnv) (Fin 11)
   \<and> strictlyInside (maxDomain exampleEnv) (Fin 21)
   \<and> animation (onPan exampleEnv (Fin 10) idleState) = none"
proof -
  have t: "panTarget exampleEnv (Fin 10) idleState = (Fin 11, Fin 21)"
    by (simp add: panTarget_finite [where ?d0.0 = 10 and ?d1.0 = 20 and w = 200])
  have d: "domain (onPan exampleEnv (Fin 10) idleState) = (Fin 11, Fin 21)"
    by (simp add: onPan_def t panInBounds_def isDomainChangePossible_def
        isAnimationInProgress_def js_gt_def)
  have o: "js_le (fst (domain idleState)) (snd (domain idleState))"
    by (simp add: js_le_def)
  show ?thesis
    using onPan_contained_or_unchanged [of exampleEnv "Fin 10" idleState] t d o
    by simp
qed

subsection \<open>The guard of the zoom, reset and pan handlers\<close>

text \<open>
  While the pointer hovers an event mark, a pan whose target passes the bounds test is not
  applied: \<open>onPan\<close> tests \<open>isDomainChangePossible\<close> before the bounds.
\<close>

theorem onPan_guard_counterexample:
  "isMouseOverEvent hoverState
   \<and> panTarget exampleEnv (Fin 10) hoverState = (Fin 11, Fin 21)
   \<and> panInBounds exampleEnv (panTarget exampleEnv (Fin 10) hoverState)
   \<and> domain (onPan exampleEnv (Fin 10) hoverState) = (Fin 10, Fin 20)"
proof -
  have t: "panTarget exampleEnv (Fin 10) hoverState = (Fin 11, Fin 21)"
    by (simp add: panTarget_finite [where ?d0.0 = 10 and ?d1.0 = 20 and w = 200])
  show ?thesis
    by (simp add: t panInBounds_def js_gt_def onPan_def isDomainChangePossible_def)
qed

text \<open>
  C8, amended. Whenever an animation is in flight or the pointer hovers an event mark,
  zoomIn, zoomOut, zoomCustom, reset and also pan leave the whole state unchanged: pan is
  guarded by the same condition, and by the bounds test after it.
\<close>

theorem guarded_handlers_noop:
  assumes "isAnimationInProgress s \<or> isMouseOverEvent s"
  shows "onZoomIn env s = s \<and> onZoomOut env s = s
         \<and> onZoomInCustom env mouseStartX mouseEndX s = s
         \<and> onZoomReset env s = s \<and> onPan env pixelDelta s = s"
proof -
  have "\<not> isDomainChangePossible s"
    using assms by (auto simp: isDomainChangePossible_def)
  then show ?thesis
    by (simp add: onZoomIn_def onZoomOut_def updateDomain_def onZoomInCustom_def
        onZoomReset_def onPan_def)
qed

theorem guarded_handlers_noop_witness:
  "(isAnimationInProgress hoverState \<or> isMouseOverEvent hoverState)
   \<and> onZoomIn exampleEnv hoverState = hoverState
   \<and> onZoomReset exampleEnv hoverState = hoverState
   \<and> onPan exampleEnv (Fin 10) hoverState = hoverState"
proof -
  have h: "isAnimationInProgress hoverState \<or> isMouseOverEvent hoverState"
    by simp
  show ?thesis
    using h guarded_handlers_noop [OF h, of exampleEnv _ _ "Fin 10"]
    by blast
qed

subsection \<open>Animation\<close>

lemma interpolate_finite:
  "interpolate (Fin e) (Fin a, Fin b) (Fin c, Fin d)
   = (Fin (a + e / 1000 * (c - a)), Fin (b + e / 1000 * (d - b)))"
  by (simp add: interpolate_def animationDuration_def js_sub_def)

lemma js_ge_not_lt: "js_ge a b \<Longrightarrow> \<not> js_lt a b"
  by (cases a; cases b; auto simp: js_ge_def js_le_def js_eq_def)

text \<open>
  C7. For an animation in flight: while \<open>elapsed < 1000\<close>, the tick schedules a frame whose
  callback sets the domain to \<open>from + elapsed / 1000 * (to - from)\<close>, each endpoint on its
  own; once \<open>elapsed \<ge> 1000\<close>, the tick sets the domain to \<open>toDomain\<close> itself and the
  animation to \<open>none\<close>.
\<close>

theorem animationEffect_tick:
  assumes "animation s = Anim st fromD toD"
  shows "(js_lt (js_sub now st) animationDuration \<longrightarrow>
            pending (animationEffect now s)
              = pending s @ [\<lparr>animatedDomain = interpolate (js_sub now st) fromD toD,
                               frameAnimation = Anim st fromD toD\<rparr>]
            \<and> domain (frameCallback \<lparr>animatedDomain = interpolate (js_sub now st) fromD toD,
                                      frameAnimation = Anim st fromD toD\<rparr> s')
              = (js_add (fst fromD)
                   (js_mul (js_div (js_sub now st) (Fin 1000)) (js_sub (fst toD) (fst fromD))),
                 js_add (snd fromD)
                   (js_mul (js_div (js_sub now st) (Fin 1000)) (js_sub (snd toD) (snd fromD)))))
         \<and> (js_ge (js_sub now st) animationDuration \<longrightarrow>
              domain (animationEffect now s) = toD
              \<and> animation (animationEffect now s) = none)"
  using assms
  by (auto simp: animationEffect_def frameCallback_def interpolate_def animationDuration_def
      Let_def dest: js_ge_not_lt)

theorem animationEffect_tick_witness:
  "animation animatingState = Anim (Fin 0) (Fin 10, Fin 20) (Fin 30, Fin 40)
   \<and> js_lt (js_sub (Fin 500) (Fin 0)) animationDuration
   \<and> domain (runFrame (animationEffect (Fin 500) animatingState)) = (Fin 20, Fin 30)
   \<and> js_ge (js_sub (Fin 1000) (Fin 0)) animationDuration
   \<and> domain (animationEffect (Fin 1000) animatingState) = (Fin 30, Fin 40)
   \<and> animation (animationEffect (Fin 1000) animatingState) = none"
proof -
  have a: "animation animatingState = Anim (Fin 0) (Fin 10, Fin 20) (Fin 30, Fin 40)"
    by (simp add: animatingState_def)
  have p: "pending animatingState = []"
    by (simp add: animatingState_def)
  have l: "js_lt (js_sub (Fin 500) (Fin 0)) animationDuration"
    by (simp add: js_sub_def animationDuration_def)
  have g: "js_ge (js_sub (Fin 1000) (Fin 0)) animationDuration"
    by (simp add: js_sub_def animationDuration_def js_ge_def js_le_def js_eq_def)
  have i: "interpolate (js_sub (Fin 500) (Fin 0)) (Fin 10, Fin 20) (Fin 30, Fin 40)
           = (Fin 20, Fin 30)"
    by (simp add: js_sub_def interpolate_finite)
  from animationEffect_tick [OF a, of "Fin 500"] l
  have "pending (animationEffect (Fin 500) animatingState)
        = [\<lparr>animatedDomain = (Fin 20, Fin 30),
            frameAnimation = Anim (Fin 0) (Fin 10, Fin 20) (Fin 30, Fin 40)\<rparr>]"
    by (simp add: p i)
  then have r: "domain (runFrame (animationEffect (Fin 500) animatingState)) = (Fin 20, Fin 30)"
    by (simp add: runFrame_def frameCallback_def js_eq_def)
  from animationEffect_tick [OF a, of "Fin 1000"] g
  have "domain (animationEffect (Fin 1000) animatingState) = (Fin 30, Fin 40)
        \<and> animation (animationEffect (Fin 1000) animatingState) = none"
    by blast
  with a l g r show ?thesis by blast
qed

subsection \<open>Stale frames\<close>

text \<open>
  A frame computed for an animation that has since been cancelled (by the extent effect)
  still overwrites the domain when it runs, also after a newer animation has started.
\<close>

theorem stale_frame_counterexample:
  "animation cancelledState = none
   \<and> domain cancelledState = (Fin 0, Fin 100)
   \<and> domain (runFrame cancelledState) = (Fin 20, Fin 30)
   \<and> animation (onZoomReset exampleEnv cancelledState)
       = Anim (Fin 5000) (Fin 0, Fin 100) (Fin 0, Fin 100)
   \<and> animation (runFrame (onZoomReset exampleEnv cancelledState))
       = Anim (Fin 5000) (Fin 0, Fin 100) (Fin 0, Fin 100)
   \<and> domain (runFrame (onZoomReset exampleEnv cancelledState)) = (Fin 20, Fin 30)"
  by (simp add: cancelledState_def animatingState_def extentEffect_def animationEffect_def
      animationDuration_def js_sub_def interpolate_def runFrame_def frameCallback_def
      js_eq_def onZoomReset_def isDomainChangePossible_def isAnimationInProgress_def
      setDomainAnimated_def idleState_def)

text \<open>
  C3, amended. When a scheduled frame callback runs, it sets the domain to the domain it
  computed, whatever the animation state is by then: the callback makes no test that the
  animation it was computed for is still the active one. It leaves the animation state as
  it is, or sets it to \<open>none\<close>.
\<close>

theorem runFrame_applies_frame:
  assumes "pending s = f # fs"
  shows "domain (runFrame s) = animatedDomain f
         \<and> (animation (runFrame s) = animation s \<or> animation (runFrame s) = none)
         \<and> pending (runFrame s) = fs"
  using assms
  by (simp add: runFrame_def frameCallback_def Let_def split: Animation.split)

theorem runFrame_applies_frame_witness:
  "pending (animationEffect (Fin 500) animatingState)
     = \<lparr>animatedDomain = (Fin 20, Fin 30),
        frameAnimation = Anim (Fin 0) (Fin 10, Fin 20) (Fin 30, Fin 40)\<rparr> # []
   \<and> domain (runFrame (animationEffect (Fin 500) animatingState)) = (Fin 20, Fin 30)"
proof -
  have p: "pending (animationEffect (Fin 500) animatingState)
           = \<lparr>animatedDomain = (Fin 20, Fin 30),
              frameAnimation = Anim (Fin 0) (Fin 10, Fin 20) (Fin 30, Fin 40)\<rparr> # []"
    by (simp add: animatingState_def animationEffect_def animationDuration_def js_sub_def
        interpolate_def idleState_def)
  show ?thesis
    using p runFrame_applies_frame [OF p]
    by simp
qed

subsection \<open>The host's sort\<close>

lemma mset_insert_left: "mset (insert_left comparefn x rs) = add_mset x (mset rs)"
  by (induction rs) simp_all

lemma mset_sort_loop: "mset (sort_loop comparefn rs xs) = mset rs + mset xs"
  by (induction xs arbitrary: rs) (simp_all add: mset_insert_left)

lemma mset_array_sort: "mset (array_sort comparefn xs) = mset xs"
  by (simp add: array_sort_def mset_sort_loop)

lemma length_array_sort: "length (array_sort comparefn xs) = length xs"
  using mset_array_sort [of comparefn xs] by (metis size_mset)

text \<open>
  With a comparator that reads only its first argument, an element whose value is negative
  moves to the front and any other element stays at the end.
\<close>

lemma insert_left_unary:
  "insert_left (\<lambda>a b. k a) x rs = (if js_lt (k x) (Fin 0) then rs @ [x] else x # rs)"
  by (induction rs) simp_all

lemma sort_loop_unary:
  "sort_loop (\<lambda>a b. k a) rs xs
   = rev (filter (\<lambda>x. js_lt (k x) (Fin 0)) xs) @ rev rs
     @ filter (\<lambda>x. \<not> js_lt (k x) (Fin 0)) xs"
  by (induction xs arbitrary: rs) (simp_all add: insert_left_unary)

lemma array_sort_unary:
  "array_sort (\<lambda>a b. k a) xs
   = rev (filter (\<lambda>x. js_lt (k x) (Fin 0)) xs) @ filter (\<lambda>x. \<not> js_lt (k x) (Fin 0)) xs"
  by (simp add: array_sort_def sort_loop_unary)

text \<open>With a comparator that is the difference of two keys the model sorts, and is stable.\<close>

lemma insert_left_sorted:
  assumes "sorted_wrt (\<lambda>a b. key b \<le> key a) rs"
  shows "sorted_wrt (\<lambda>a b. key b \<le> key a) (insert_left (\<lambda>a b. Fin (key a - key b)) x rs)"
  using assms
proof (induction rs)
  case Nil
  then show ?case by simp
next
  case (Cons y rs)
  have "set (insert_left (\<lambda>a b. Fin (key a - key b)) x rs) = insert x (set rs)"
    using mset_insert_left [of "\<lambda>a b. Fin (key a - key b)" x rs]
    by (metis set_mset_add_mset_insert set_mset_mset)
  with Cons show ?case by auto
qed

lemma sort_loop_sorted:
  assumes "sorted_wrt (\<lambda>a b. key b \<le> key a) rs"
  shows "sorted_wrt (\<lambda>a b. key a \<le> key b) (sort_loop (\<lambda>a b. Fin (key a - key b)) rs xs)"
  using assms
proof (induction xs arbitrary: rs)
  case Nil
  then show ?case by (simp add: sorted_wrt_rev)
next
  case (Cons x xs)
  then show ?case by (simp add: insert_left_sorted)
qed

lemma array_sort_sorted:
  "sorted_wrt (\<lambda>a b. (key a :: real) \<le> key b) (array_sort (\<lambda>a b. Fin (key a - key b)) xs)"
  by (simp add: array_sort_def sort_loop_sorted)

subsection \<open>The order of the foreground pass\<close>

lemma foregroundMarks_order:
  "map mark_event (foregroundMarks ecf es)
   = rev (filter (\<lambda>e. js_lt (sortByEventDuration e) (Fin 0)) es)
     @ filter (\<lambda>e. \<not> js_lt (sortByEventDuration e) (Fin 0)) es"
  by (simp add: foregroundMarks_def array_sort_unary interactiveEventMark_def o_def)

text \<open>
  C1. The specification orders the foreground pass by descending effective duration. The
  code passes the one-argument \<open>sortByEventDuration\<close> as the comparator of \<^verbatim>\<open>sort\<close>: for two
  period events of durations 5 and 10 it answers, whichever comes first, that the first
  argument goes before the second. For the events of durations 5, 10, 7 the foreground pass
  comes out as 7, 10, 5, which is not descending; nor is the array order 5, 10, 7 itself,
  which a sort that reads the same answers as ``already in order'' would keep.
\<close>

theorem foregroundMarks_not_descending:
  "js_lt (sortByEventDuration (threePeriods ! 0)) (Fin 0)
   \<and> js_lt (sortByEventDuration (threePeriods ! 1)) (Fin 0)
   \<and> map effectiveDuration threePeriods = [Fin 5, Fin 10, Fin 7]
   \<and> map mark_key (foregroundMarks defaultEventComponent threePeriods) = [''c'', ''b'', ''a'']
   \<and> map effectiveDuration (map mark_event (foregroundMarks defaultEventComponent threePeriods))
       = [Fin 7, Fin 10, Fin 5]
   \<and> \<not> descendingDuration (map mark_event (foregroundMarks defaultEventComponent threePeriods))
   \<and> \<not> descendingDuration threePeriods"
  by (simp add: threePeriods_def foregroundMarks_def array_sort_def sortByEventDuration_def
      truthy_end_def end_of_def js_sub_def interactiveEventMark_def effectiveDuration_def
      descendingDuration_def js_ge_def js_le_def js_eq_def)

subsection \<open>The selection pass\<close>

lemma length_passes:
  "length (backgroundMarks ecf es) = length es"
  "length (foregroundMarks ecf es) = length es"
  by (simp_all add: backgroundMarks_def foregroundMarks_def length_array_sort)

text \<open>
  C5. The selection pass renders exactly the events whose \<open>isSelected\<close> is true (each as
  often as it is in the list), and the selection visuals are the last elements of what
  \<open>Marks\<close> emits: they come after all the visuals of the background pass and of the
  foreground pass.
\<close>

theorem Marks_selection_last:
  "mset (map mark_event (selectionMarks ecf es)) = mset (filter isSelected es)
   \<and> take (length es + length es) (Marks ecf es)
       = backgroundMarks ecf es @ foregroundMarks ecf es
   \<and> drop (length es + length es) (Marks ecf es) = selectionMarks ecf es"
proof -
  have "map mark_event (selectionMarks ecf es)
        = array_sort (\<lambda>a b. sortByEventDuration a) (filter isSelected es)"
    by (simp add: selectionMarks_def interactiveEventMark_def o_def)
  then have "mset (map mark_event (selectionMarks ecf es)) = mset (filter isSelected es)"
    by (simp only: mset_array_sort)
  then show ?thesis
    by (simp add: Marks_def length_passes)
qed

theorem Marks_selection_last_witness:
  "map mark_key (selectionMarks defaultEventComponent threePeriods) = [''b'']
   \<and> map mark_key (drop 6 (Marks defaultEventComponent threePeriods)) = [''b'']
   \<and> length (Marks defaultEventComponent threePeriods) = 7"
proof -
  have s: "map mark_key (selectionMarks defaultEventComponent threePeriods) = [''b'']"
    by (simp add: selectionMarks_def threePeriods_def array_sort_def interactiveEventMark_def)
  have l: "length threePeriods = 3"
    by (simp add: threePeriods_def)
  from Marks_selection_last [of defaultEventComponent threePeriods]
  have d: "drop 6 (Marks defaultEventComponent threePeriods)
        = selectionMarks defaultEventComponent threePeriods"
    by (simp add: l)
  have "length (Marks defaultEventComponent threePeriods)
        = 6 + length (map mark_key (selectionMarks defaultEventComponent threePeriods))"
    by (simp add: Marks_def length_passes l)
  with s d show ?thesis by simp
qed

subsection \<open>Tooltips\<close>

lemma js_add_zero [simp]: "js_add x (Fin 0) = x"
  by (cases x) simp_all




end
